theory Spec2Isabelle
  imports Main "HOL-Library.Word"
begin

section \<open>JavaScript strings and values\<close>

text \<open>
  A JavaScript string is a sequence of UTF-16 code units. A regular expression without the
  \<^verbatim>\<open>u\<close> flag and \<^verbatim>\<open>String.prototype.trim\<close> both work on code units, and every
  whitespace character of the language lies in the basic plane, so a list of 16-bit words
  is the string as the handlers see it.
\<close>

type_synonym jsstring = "16 word list"

definition js :: "string \<Rightarrow> jsstring" where
  "js s = map of_char s"

text \<open>
  The values a tool parameter or a widget payload entry can hold. They arrive as parsed
  JSON:
  \<^item> \<open>JUndefined\<close> is what reading a missing key gives;
  \<^item> \<open>JNum\<close> is a number, kept as the string that \<^verbatim>\<open>Number.prototype.toString\<close> prints for
    it (\<^verbatim>\<open>"0.5"\<close>, \<^verbatim>\<open>"42"\<close>, \<^verbatim>\<open>"1e+21"\<close>). The handlers look at a number through \<^verbatim>\<open>String\<close>
    and \<^verbatim>\<open>Boolean\<close> only, and the printed string decides both: the falsy numbers, \<^verbatim>\<open>0\<close>,
    \<^verbatim>\<open>-0\<close> and \<^verbatim>\<open>NaN\<close>, are the ones that print as \<^verbatim>\<open>"0"\<close> or \<^verbatim>\<open>"NaN"\<close>;
  \<^item> \<open>JArr\<close> is an array;
  \<^item> \<open>JObj\<close> is a plain object, with its own keys and their values.
\<close>

datatype jsval =
    JUndefined
  | JNull
  | JBool bool
  | JNum jsstring
  | JStr jsstring
  | JArr "jsval list"
  | JObj "(jsstring \<times> jsval) list"

fun join :: "jsstring \<Rightarrow> jsstring list \<Rightarrow> jsstring" where
  "join sep [] = []"
| "join sep [x] = x"
| "join sep (x # y # ys) = x @ sep @ join sep (y # ys)"

text \<open>
  \<^verbatim>\<open>String(v)\<close>, \<open>None\<close> when the conversion throws a \<^verbatim>\<open>TypeError\<close>.
  \<^item> An array prints its elements joined by commas, with \<^verbatim>\<open>null\<close> and \<^verbatim>\<open>undefined\<close>
    elements printed as the empty string; it throws when an element does.
  \<^item> A plain object prints as \<^verbatim>\<open>[object Object]\<close> through \<^verbatim>\<open>Object.prototype.toString\<close>.
    When the object has a key \<^verbatim>\<open>toString\<close> of its own, that value hides the inherited method;
    a JSON value is never callable, the inherited \<^verbatim>\<open>valueOf\<close> returns the object itself, and
    the conversion throws.
\<close>

fun String_js :: "jsval \<Rightarrow> jsstring option" where
  "String_js JUndefined = Some (js ''undefined'')"
| "String_js JNull = Some (js ''null'')"
| "String_js (JBool b) = Some (if b then js ''true'' else js ''false'')"
| "String_js (JNum printed) = Some printed"
| "String_js (JStr s) = Some s"
| "String_js (JArr vs) =
     (let parts =
        map (\<lambda>v. if v = JUndefined \<or> v = JNull then Some [] else String_js v) vs
      in if None \<in> set parts then None else Some (join (js '','') (map the parts)))"
| "String_js (JObj own) =
     (if map_of own (js ''toString'') = None then Some (js ''[object Object]'') else None)"

text \<open>\<^verbatim>\<open>Boolean(v)\<close>, the truthiness that \<^verbatim>\<open>!v\<close> and \<^verbatim>\<open>if (v)\<close> also use. It never
  throws.\<close>

fun Boolean_js :: "jsval \<Rightarrow> bool" where
  "Boolean_js JUndefined = False"
| "Boolean_js JNull = False"
| "Boolean_js (JBool b) = b"
| "Boolean_js (JNum printed) = (printed \<noteq> js ''0'' \<and> printed \<noteq> js ''NaN'')"
| "Boolean_js (JStr s) = (s \<noteq> [])"
| "Boolean_js (JArr vs) = True"
| "Boolean_js (JObj own) = True"

text \<open>\<^verbatim>\<open>v ?? d\<close>: the default replaces \<^verbatim>\<open>undefined\<close> and \<^verbatim>\<open>null\<close>, and nothing else.\<close>

definition coalesce :: "jsval \<Rightarrow> jsval \<Rightarrow> jsval" where
  "coalesce v d = (if v = JUndefined \<or> v = JNull then d else v)"

text \<open>Reading a key of a parsed JSON object, \<^verbatim>\<open>obj.key\<close>.\<close>

definition property :: "(jsstring \<times> jsval) list \<Rightarrow> string \<Rightarrow> jsval" where
  "property obj k = (case map_of obj (js k) of None \<Rightarrow> JUndefined | Some v \<Rightarrow> v)"

subsection \<open>Whitespace\<close>

text \<open>The characters of the regular expression's whitespace class, which are also the ones
  \<^verbatim>\<open>trim\<close> strips: the WhiteSpace and LineTerminator productions of the language.\<close>

definition is_ws :: "16 word \<Rightarrow> bool" where
  "is_ws c \<longleftrightarrow>
     c \<in> {0x9, 0xA, 0xB, 0xC, 0xD, 0x20, 0xA0, 0x1680, 0x2028, 0x2029, 0x202F, 0x205F,
          0x3000, 0xFEFF}
     \<or> (0x2000 \<le> c \<and> c \<le> 0x200A)"

text \<open>The global replacement of one or more whitespace characters by \<^verbatim>\<open>" "\<close>: the matches
  are the maximal runs of whitespace, from left to right, and each becomes one space.\<close>

function replace_ws :: "jsstring \<Rightarrow> jsstring" where
  "replace_ws [] = []"
| "replace_ws (c # cs) =
     (if is_ws c then 0x20 # replace_ws (dropWhile is_ws cs) else c # replace_ws cs)"
  by pat_completeness auto
termination
  by (relation "measure length") (auto simp: length_dropWhile_le less_Suc_eq_le)

definition trim :: "jsstring \<Rightarrow> jsstring" where
  "trim s = rev (dropWhile is_ws (rev (dropWhile is_ws s)))"

section \<open>The panel's data\<close>

record invocation =
  name :: jsstring
  params :: "(jsstring \<times> jsval) list"

record ToolResult =
  success :: bool

text \<open>The one \<open>FactAction\<close> the panel builds: \<^verbatim>\<open>{ type: "save", factId, factText }\<close>.\<close>

datatype FactAction = Save (factId: jsstring) (factText: jsstring)

text \<open>A widget action; \<open>payload\<close> is \<open>None\<close> when the action carries none, which
  \<^verbatim>\<open>action.payload?.url\<close> reads as \<^verbatim>\<open>undefined\<close>.\<close>

record WidgetAction =
  type :: jsstring
  payload :: "(jsstring \<times> jsval) list option"

definition payload_url :: "WidgetAction \<Rightarrow> jsval" where
  "payload_url action = (case payload action of None \<Rightarrow> JUndefined | Some p \<Rightarrow> property p ''url'')"

datatype level = Debug | Log | Warn | Error

text \<open>
  Every call the handlers issue on something outside themselves, and every mutation of the
  \<open>processedFacts\<close> set, in program order. An entry records that the call was issued,
  whether or not it then raised. Console calls keep their level only.
\<close>

datatype effect =
    Console level
  | OnThemeRequest jsval
  | FactsAdd jsstring
  | FactsClear
  | OnWidgetAction FactAction
  | OnResponseEnd
  | WindowOpen jsval
  | WindowFocus
  | LocationHref jsval
  | Fetch jsval
  | FetchPost WidgetAction jsstring
  | CreateObjectURL
  | RevokeObjectURL
  | AppendChild
  | RemoveChild
  | ClickOpen jsval
  | ClickDownload jsstring
  | Alert

text \<open>A handler is an async function: its promise is fulfilled with a value (\<open>Inr\<close>) or
  rejected with the error thrown (\<open>Inl\<close>): the \<^verbatim>\<open>TypeError\<close> of a failed conversion to a
  string, or what a browser call threw, with its message.\<close>

datatype error = TypeError | Thrown jsstring

subsection \<open>The browser\<close>

datatype opened = NewWindow | NoWindow | OpenThrows jsstring

datatype image_fetch = ImageRejected | ImageResponse nat bool

datatype 'j post_fetch = PostRejected jsstring | PostResponse nat "jsstring + 'j"

text \<open>
  What the browser and the network answer, as the handlers can observe it:
  \<^item> \<open>DEV\<close>: \<^verbatim>\<open>import.meta.env.DEV\<close>;
  \<^item> \<open>window_open url\<close>: \<^verbatim>\<open>window.open(url, "_blank", "noopener,noreferrer")\<close> returns a
    window, returns \<^verbatim>\<open>null\<close>, or throws;
  \<^item> \<open>location_href url\<close>: the assignment \<^verbatim>\<open>window.location.href = url\<close> completes
    (\<open>None\<close>) or throws (\<open>Some\<close> of the message);
  \<^item> \<open>fetch_image url\<close>: \<^verbatim>\<open>fetch(url)\<close> rejects, or resolves to a response with an HTTP
    status whose \<^verbatim>\<open>blob()\<close> resolves (\<open>True\<close>) or rejects;
  \<^item> \<open>URL_pathname url\<close>: \<^verbatim>\<open>new URL(url).pathname\<close>, \<open>None\<close> when the constructor throws;
  \<^item> \<open>post_widget_action action itemId\<close>: the \<^verbatim>\<open>POST\<close> to \<^verbatim>\<open>/api/widget-action\<close> rejects
    with a message, or resolves to a response with an HTTP status whose \<^verbatim>\<open>json()\<close> rejects
    with a message (\<open>Inl\<close>) or gives the parsed body (\<open>Inr\<close>).
\<close>

record 'j browser =
  DEV :: bool
  window_open :: "jsval \<Rightarrow> opened"
  location_href :: "jsval \<Rightarrow> jsstring option"
  fetch_image :: "jsval \<Rightarrow> image_fetch"
  URL_pathname :: "jsval \<Rightarrow> jsstring option"
  post_widget_action :: "WidgetAction \<Rightarrow> jsstring \<Rightarrow> 'j post_fetch"

text \<open>\<^verbatim>\<open>response.ok\<close>: the status is in the range 200 to 299.\<close>

definition ok :: "nat \<Rightarrow> bool" where
  "ok status \<longleftrightarrow> 200 \<le> status \<and> status \<le> 299"

section \<open>The tool handlers\<close>

type_synonym tool_return = "(error + ToolResult) \<times> jsstring set \<times> effect list"

text \<open>The \<^verbatim>\<open>switch_theme\<close> and \<^verbatim>\<open>record_fact\<close> branches of \<^verbatim>\<open>onClientTool\<close>; their text is the
  same in both copies of the panel.\<close>

definition switch_theme :: "'j browser \<Rightarrow> invocation \<Rightarrow> jsstring set \<Rightarrow> tool_return" where
  "switch_theme w invocation processedFacts =
     (let requested = property (params invocation) ''theme'' in
      if requested = JStr (js ''light'') \<or> requested = JStr (js ''dark'') then
        (Inr \<lparr>success = True\<rparr>, processedFacts,
           (if DEV w then [Console Debug] else []) @ [OnThemeRequest requested])
      else (Inr \<lparr>success = False\<rparr>, processedFacts, []))"

text \<open>In \<^verbatim>\<open>record_fact\<close> both conversions run first, before the test of the id and outside
  any \<^verbatim>\<open>try\<close>: when one throws, the promise is rejected and nothing else has happened.
  The source's \<^verbatim>\<open>id\<close> is \<open>fid\<close> here.\<close>

definition record_fact :: "invocation \<Rightarrow> jsstring set \<Rightarrow> tool_return" where
  "record_fact invocation processedFacts =
     (case String_js (coalesce (property (params invocation) ''fact_id'') (JStr [])) of
        None \<Rightarrow> (Inl TypeError, processedFacts, [])
      | Some fid \<Rightarrow>
          (case String_js (coalesce (property (params invocation) ''fact_text'') (JStr [])) of
             None \<Rightarrow> (Inl TypeError, processedFacts, [])
           | Some text \<Rightarrow>
               if fid = [] \<or> fid \<in> processedFacts then
                 (Inr \<lparr>success = True\<rparr>, processedFacts, [])
               else
                 (Inr \<lparr>success = True\<rparr>, insert fid processedFacts,
                    [FactsAdd fid, OnWidgetAction (Save fid (trim (replace_ws text)))])))"

text \<open>The \<^verbatim>\<open>navigate_to_url\<close> branch of the panel in \<^verbatim>\<open>unnamed/part_000\<close>: a new tab, with
  the current tab as the fallback. The three conversions come first, outside the \<^verbatim>\<open>try\<close>:
  when the one of \<^verbatim>\<open>url\<close> or of \<^verbatim>\<open>description\<close> throws, the promise is rejected before the
  url is tested and before any navigation.\<close>

definition navigate_to_url :: "'j browser \<Rightarrow> invocation \<Rightarrow> jsstring set \<Rightarrow> tool_return" where
  "navigate_to_url w invocation processedFacts =
     (case String_js (coalesce (property (params invocation) ''url'') (JStr [])) of
        None \<Rightarrow> (Inl TypeError, processedFacts, [])
      | Some url \<Rightarrow>
     (let openInNewTab =
            Boolean_js (coalesce (property (params invocation) ''open_in_new_tab'') (JBool True))
      in
     (case String_js (coalesce (property (params invocation) ''description'') (JStr [])) of
        None \<Rightarrow> (Inl TypeError, processedFacts, [])
      | Some description \<Rightarrow>
     (let dev = (if DEV w then [Console Debug] else [])
      in if url = [] then (Inr \<lparr>success = False\<rparr>, processedFacts, [])
         else if openInNewTab then
           (case window_open w (JStr url) of
              OpenThrows m \<Rightarrow>
                (Inr \<lparr>success = False\<rparr>, processedFacts,
                   dev @ [Console Log, WindowOpen (JStr url), Console Error])
            | NewWindow \<Rightarrow>
                (Inr \<lparr>success = True\<rparr>, processedFacts,
                   dev @ [Console Log, WindowOpen (JStr url), Console Log, WindowFocus])
            | NoWindow \<Rightarrow>
                (case location_href w (JStr url) of
                   None \<Rightarrow>
                     (Inr \<lparr>success = True\<rparr>, processedFacts,
                        dev @ [Console Log, WindowOpen (JStr url), Console Warn,
                               LocationHref (JStr url)])
                 | Some m \<Rightarrow>
                     (Inr \<lparr>success = False\<rparr>, processedFacts,
                        dev @ [Console Log, WindowOpen (JStr url), Console Warn,
                               LocationHref (JStr url), Console Error])))
         else
           (case location_href w (JStr url) of
              None \<Rightarrow>
                (Inr \<lparr>success = True\<rparr>, processedFacts,
                   dev @ [Console Log, LocationHref (JStr url)])
            | Some m \<Rightarrow>
                (Inr \<lparr>success = False\<rparr>, processedFacts,
                   dev @ [Console Log, LocationHref (JStr url), Console Error]))))))"

text \<open>The same branch in \<^verbatim>\<open>frontend/src/components/ChatKitPanel.tsx\<close>: the same three
  conversions, then \<open>openInNewTab\<close> is not used and the current tab always navigates.\<close>

definition navigate_to_url_ChatKitPanel ::
  "'j browser \<Rightarrow> invocation \<Rightarrow> jsstring set \<Rightarrow> tool_return" where
  "navigate_to_url_ChatKitPanel w invocation processedFacts =
     (case String_js (coalesce (property (params invocation) ''url'') (JStr [])) of
        None \<Rightarrow> (Inl TypeError, processedFacts, [])
      | Some url \<Rightarrow>
     (let openInNewTab =
            Boolean_js (coalesce (property (params invocation) ''open_in_new_tab'') (JBool True))
      in
     (case String_js (coalesce (property (params invocation) ''description'') (JStr [])) of
        None \<Rightarrow> (Inl TypeError, processedFacts, [])
      | Some description \<Rightarrow>
     (let dev = (if DEV w then [Console Debug] else [])
      in if url = [] then (Inr \<lparr>success = False\<rparr>, processedFacts, [])
         else
           (case location_href w (JStr url) of
              None \<Rightarrow>
                (Inr \<lparr>success = True\<rparr>, processedFacts, dev @ [LocationHref (JStr url)])
            | Some m \<Rightarrow>
                (Inr \<lparr>success = False\<rparr>, processedFacts,
                   dev @ [LocationHref (JStr url), Console Error]))))))"

text \<open>\<^verbatim>\<open>onClientTool\<close> of \<^verbatim>\<open>unnamed/part_000\<close>.\<close>

definition onClientTool :: "'j browser \<Rightarrow> invocation \<Rightarrow> jsstring set \<Rightarrow> tool_return" where
  "onClientTool w invocation processedFacts =
     (if name invocation = js ''switch_theme'' then switch_theme w invocation processedFacts
      else if name invocation = js ''record_fact'' then record_fact invocation processedFacts
      else if name invocation = js ''navigate_to_url'' then
        navigate_to_url w invocation processedFacts
      else (Inr \<lparr>success = False\<rparr>, processedFacts, []))"

text \<open>\<^verbatim>\<open>onClientTool\<close> of \<^verbatim>\<open>frontend/src/components/ChatKitPanel.tsx\<close>.\<close>

definition onClientTool_ChatKitPanel ::
  "'j browser \<Rightarrow> invocation \<Rightarrow> jsstring set \<Rightarrow> tool_return" where
  "onClientTool_ChatKitPanel w invocation processedFacts =
     (if name invocation = js ''switch_theme'' then switch_theme w invocation processedFacts
      else if name invocation = js ''record_fact'' then record_fact invocation processedFacts
      else if name invocation = js ''navigate_to_url'' then
        navigate_to_url_ChatKitPanel w invocation processedFacts
      else (Inr \<lparr>success = False\<rparr>, processedFacts, []))"

text \<open>\<^verbatim>\<open>onThreadChange\<close>, the same in both copies: \<^verbatim>\<open>processedFacts.current.clear()\<close>.\<close>

definition onThreadChange :: "jsstring set \<Rightarrow> jsstring set \<times> effect list" where
  "onThreadChange processedFacts = ({}, [FactsClear])"

section \<open>The widget action handlers\<close>

text \<open>What \<^verbatim>\<open>widgets.onAction\<close> returns: nothing (\<^verbatim>\<open>undefined\<close>), the parsed body of the
  backend's response, or \<^verbatim>\<open>{ success: false, error: message }\<close>.\<close>

datatype 'j ActionResult = Undefined | Result 'j | Failure jsstring

type_synonym 'j action_return = "(error + 'j ActionResult) \<times> effect list"

text \<open>\<^verbatim>\<open>pathname.split("/").pop() || "generated-image.png"\<close>: what follows the last slash,
  or the default when that is empty.\<close>

definition filename_of :: "jsstring \<Rightarrow> jsstring" where
  "filename_of pathname =
     (let seg = rev (takeWhile (\<lambda>c. c \<noteq> 0x2F) (rev pathname))
      in if seg = [] then js ''generated-image.png'' else seg)"

text \<open>The \<^verbatim>\<open>navigation.open\<close> branch of \<^verbatim>\<open>unnamed/part_000\<close>. The call of \<^verbatim>\<open>window.open\<close>
  is outside any \<^verbatim>\<open>try\<close>: what it throws rejects the handler's promise.\<close>

definition navigation_open :: "'j browser \<Rightarrow> WidgetAction \<Rightarrow> 'j action_return" where
  "navigation_open w action =
     (let url = payload_url action in
      if Boolean_js url then
        (case window_open w url of
           OpenThrows m \<Rightarrow> (Inl (Thrown m), [Console Log, Console Log, WindowOpen url])
         | NewWindow \<Rightarrow>
             (Inr Undefined, [Console Log, Console Log, WindowOpen url, Console Log, WindowFocus])
         | NoWindow \<Rightarrow>
             (Inr Undefined,
                [Console Log, Console Log, WindowOpen url, Console Warn,
                 AppendChild, ClickOpen url, RemoveChild]))
      else (Inr Undefined, [Console Log]))"

text \<open>The \<^verbatim>\<open>image.download\<close> / \<^verbatim>\<open>image_generation.download\<close> branch of
  \<^verbatim>\<open>unnamed/part_000\<close>. Every path ends in the bare \<^verbatim>\<open>return\<close>.\<close>

definition image_download :: "'j browser \<Rightarrow> WidgetAction \<Rightarrow> 'j action_return" where
  "image_download w action =
     (let url = payload_url action;
          failed = [Console Error, Alert]
      in if \<not> Boolean_js url then (Inr Undefined, [Console Log, Console Log, Console Error])
         else
           (Inr Undefined,
            [Console Log, Console Log, Console Log, Fetch url] @
            (case fetch_image w url of
               ImageRejected \<Rightarrow> failed
             | ImageResponse status blob \<Rightarrow>
                 if \<not> ok status then failed
                 else if \<not> blob then failed
                 else
                   [Console Log, CreateObjectURL] @
                   (case URL_pathname w url of
                      None \<Rightarrow> failed
                    | Some pathname \<Rightarrow>
                        [AppendChild, ClickDownload (filename_of pathname), RemoveChild,
                         RevokeObjectURL, Console Log]))))"

text \<open>The relay to the backend, the last branch of \<^verbatim>\<open>unnamed/part_000\<close>. The response's
  status is not looked at.\<close>

definition relay :: "'j browser \<Rightarrow> WidgetAction \<Rightarrow> jsstring \<Rightarrow> 'j action_return" where
  "relay w action item_id =
     (case post_widget_action w action item_id of
        PostRejected m \<Rightarrow>
          (Inr (Failure m), [Console Log, FetchPost action item_id, Console Error])
      | PostResponse status body \<Rightarrow>
          (case body of
             Inl m \<Rightarrow> (Inr (Failure m), [Console Log, FetchPost action item_id, Console Error])
           | Inr result \<Rightarrow>
               (Inr (Result result), [Console Log, FetchPost action item_id, Console Log])))"

text \<open>\<^verbatim>\<open>widgets.onAction\<close> of \<^verbatim>\<open>unnamed/part_000\<close>; it logs three lines, then branches on
  the action's type.\<close>

definition onAction :: "'j browser \<Rightarrow> WidgetAction \<Rightarrow> jsstring \<Rightarrow> 'j action_return" where
  "onAction w action item_id =
     (let (r, effects) =
        (if type action = js ''navigation.open'' then navigation_open w action
         else if type action = js ''image.download''
                 \<or> type action = js ''image_generation.download'' then image_download w action
         else relay w action item_id)
      in (r, [Console Log, Console Log, Console Log] @ effects))"

text \<open>\<^verbatim>\<open>widgets.onAction\<close> of \<^verbatim>\<open>frontend/src/components/ChatKitPanel.tsx\<close>: every action goes
  to the backend first; a \<^verbatim>\<open>navigation.open\<close> action then opens its URL, inside the same
  \<^verbatim>\<open>try\<close>.\<close>

definition onAction_ChatKitPanel ::
  "'j browser \<Rightarrow> WidgetAction \<Rightarrow> jsstring \<Rightarrow> 'j action_return" where
  "onAction_ChatKitPanel w action item_id =
     (case post_widget_action w action item_id of
        PostRejected m \<Rightarrow>
          (Inr (Failure m), [Console Log, FetchPost action item_id, Console Error])
      | PostResponse status body \<Rightarrow>
          (case body of
             Inl m \<Rightarrow> (Inr (Failure m), [Console Log, FetchPost action item_id, Console Error])
           | Inr result \<Rightarrow>
               (if type action = js ''navigation.open'' \<and> Boolean_js (payload_url action) then
                  (case window_open w (payload_url action) of
                     OpenThrows m \<Rightarrow>
                       (Inr (Failure m),
                          [Console Log, FetchPost action item_id, Console Log, Console Log,
                           WindowOpen (payload_url action), Console Error])
                   | _ \<Rightarrow>
                       (Inr (Result result),
                          [Console Log, FetchPost action item_id, Console Log, Console Log,
                           WindowOpen (payload_url action)]))
                else (Inr (Result result), [Console Log, FetchPost action item_id, Console Log]))))"

section \<open>A thread session\<close>

text \<open>
  The events the chat widget delivers to the panel: a client tool invocation, a thread
  change, a widget action with the id of its item, the end of a response, an error (which
  \<^verbatim>\<open>onError\<close> only logs). They are handled one at a time; the only state that lives from
  one to the next is the \<open>processedFacts\<close> set. Each event comes with the browser's
  answers at the time it is handled.
\<close>

datatype event =
    ClientTool invocation
  | ThreadChange
  | WidgetAct WidgetAction jsstring
  | ResponseEnd
  | ChatError

fun is_thread_change :: "event \<Rightarrow> bool" where
  "is_thread_change ThreadChange = True"
| "is_thread_change _ = False"

definition step :: "'j browser \<times> event \<Rightarrow> jsstring set \<Rightarrow> jsstring set \<times> effect list" where
  "step we processedFacts =
     (case snd we of
        ClientTool invocation \<Rightarrow> snd (onClientTool (fst we) invocation processedFacts)
      | ThreadChange \<Rightarrow> onThreadChange processedFacts
      | WidgetAct action item_id \<Rightarrow> (processedFacts, snd (onAction (fst we) action item_id))
      | ResponseEnd \<Rightarrow> (processedFacts, [OnResponseEnd])
      | ChatError \<Rightarrow> (processedFacts, [Console Error]))"

definition step_ChatKitPanel ::
  "'j browser \<times> event \<Rightarrow> jsstring set \<Rightarrow> jsstring set \<times> effect list" where
  "step_ChatKitPanel we processedFacts =
     (case snd we of
        ClientTool invocation \<Rightarrow>
          snd (onClientTool_ChatKitPanel (fst we) invocation processedFacts)
      | ThreadChange \<Rightarrow> onThreadChange processedFacts
      | WidgetAct action item_id \<Rightarrow>
          (processedFacts, snd (onAction_ChatKitPanel (fst we) action item_id))
      | ResponseEnd \<Rightarrow> (processedFacts, [OnResponseEnd])
      | ChatError \<Rightarrow> (processedFacts, [Console Error]))"

fun run ::
  "('e \<Rightarrow> jsstring set \<Rightarrow> jsstring set \<times> effect list) \<Rightarrow> 'e list \<Rightarrow> jsstring set
     \<Rightarrow> jsstring set \<times> effect list" where
  "run st [] processedFacts = (processedFacts, [])"
| "run st (e # es) processedFacts =
     (let (facts1, out1) = st e processedFacts;
          (facts2, out2) = run st es facts1
      in (facts2, out1 @ out2))"

text \<open>How many times the effects hand the fact \<open>f\<close> to the persistence callback.\<close>

fun is_save :: "jsstring \<Rightarrow> effect \<Rightarrow> bool" where
  "is_save f (OnWidgetAction (Save g t)) = (g = f)"
| "is_save f _ = False"

definition saves :: "jsstring \<Rightarrow> effect list \<Rightarrow> nat" where
  "saves f effects = length (filter (is_save f) effects)"

text \<open>In a list of effects that follows the effect \<open>prev\<close> (\<open>None\<close> at the start), every
  hand-over of a fact to the persistence callback comes directly after the insertion of that
  fact's id into \<open>processedFacts\<close>.\<close>

fun add_before_save :: "effect option \<Rightarrow> effect list \<Rightarrow> bool" where
  "add_before_save prev [] = True"
| "add_before_save prev (OnWidgetAction a # es) =
     (prev = Some (FactsAdd (factId a)) \<and> add_before_save (Some (OnWidgetAction a)) es)"
| "add_before_save prev (e # es) = add_before_save (Some e) es"

section \<open>Notions used to state the properties\<close>

subsection \<open>Normalised text, as the specification words it\<close>

text \<open>
  The specification's wording of the normalisation, written without following the code:
  the words of a text are its maximal runs of non-whitespace characters, and the normalised
  text is the words with one space between neighbours. So every run of whitespace inside
  the text has become one space, and nothing stands before the first word or after the
  last.
\<close>

function tokens :: "jsstring \<Rightarrow> jsstring list" where
  "tokens [] = []"
| "tokens (c # cs) =
     (if is_ws c then tokens cs
      else (c # takeWhile (\<lambda>x. \<not> is_ws x) cs) # tokens (dropWhile (\<lambda>x. \<not> is_ws x) cs))"
  by pat_completeness auto
termination
  by (relation "measure length") (auto simp: length_dropWhile_le less_Suc_eq_le)

definition spec_normalize :: "jsstring \<Rightarrow> jsstring" where
  "spec_normalize s = join [0x20] (tokens s)"

text \<open>The right half of \<open>trim\<close>.\<close>

definition trimEnd :: "jsstring \<Rightarrow> jsstring" where
  "trimEnd s = rev (dropWhile is_ws (rev s))"

subsection \<open>Outcomes and effects\<close>

text \<open>The two ways the image fetch fails: the request is rejected, or the response's status
  is not a success.\<close>

fun fetch_failed :: "image_fetch \<Rightarrow> bool" where
  "fetch_failed ImageRejected = True"
| "fetch_failed (ImageResponse status blob) = (\<not> ok status)"

text \<open>The call of \<^verbatim>\<open>window.open\<close> threw.\<close>

fun open_throws :: "opened \<Rightarrow> bool" where
  "open_throws (OpenThrows m) = True"
| "open_throws NewWindow = False"
| "open_throws NoWindow = False"

text \<open>What a relayed action gives back, by the outcome of the request: the error's message
  in \<^verbatim>\<open>{ success: false, error }\<close> when the request is rejected or the body does not parse,
  the parsed body otherwise. The status plays no part.\<close>

fun relayed_result :: "'j post_fetch \<Rightarrow> error + 'j ActionResult" where
  "relayed_result (PostRejected m) = Inr (Failure m)"
| "relayed_result (PostResponse status (Inl m)) = Inr (Failure m)"
| "relayed_result (PostResponse status (Inr result)) = Inr (Result result)"

text \<open>The effects that take the user somewhere.\<close>

fun is_navigation :: "effect \<Rightarrow> bool" where
  "is_navigation (WindowOpen url) = True"
| "is_navigation (LocationHref url) = True"
| "is_navigation (ClickOpen url) = True"
| "is_navigation e = False"

subsection \<open>Concrete inputs\<close>

text \<open>A browser that blocks every new tab and has no network.\<close>

definition blocked_browser :: "jsval browser" where
  "blocked_browser =
     \<lparr>DEV = False, window_open = (\<lambda>url. NoWindow), location_href = (\<lambda>url. None),
      fetch_image = (\<lambda>url. ImageRejected), URL_pathname = (\<lambda>url. None),
      post_widget_action = (\<lambda>action item_id. PostRejected (js ''Failed to fetch''))\<rparr>"

text \<open>A browser whose network answers, but with error statuses: 404 for the image, 500
  with a JSON body for the backend.\<close>

definition error_browser :: "jsval browser" where
  "error_browser =
     \<lparr>DEV = False, window_open = (\<lambda>url. NewWindow), location_href = (\<lambda>url. None),
      fetch_image = (\<lambda>url. ImageResponse 404 True), URL_pathname = (\<lambda>url. None),
      post_widget_action = (\<lambda>action item_id. PostResponse 500 (Inr (JObj [])))\<rparr>"

text \<open>A browser where everything works.\<close>

definition ok_browser :: "jsval browser" where
  "ok_browser =
     \<lparr>DEV = False, window_open = (\<lambda>url. NewWindow), location_href = (\<lambda>url. None),
      fetch_image = (\<lambda>url. ImageResponse 200 True),
      URL_pathname = (\<lambda>url. Some (js ''/cat.png'')),
      post_widget_action = (\<lambda>action item_id. PostResponse 200 (Inr (JObj [])))\<rparr>"

text \<open>A browser that blocks every new tab and in which the assignment to
  \<^verbatim>\<open>window.location.href\<close> throws.\<close>

definition stuck_browser :: "jsval browser" where
  "stuck_browser =
     \<lparr>DEV = False, window_open = (\<lambda>url. NoWindow),
      location_href = (\<lambda>url. Some (js ''navigation refused'')),
      fetch_image = (\<lambda>url. ImageRejected), URL_pathname = (\<lambda>url. None),
      post_widget_action = (\<lambda>action item_id. PostRejected (js ''Failed to fetch''))\<rparr>"

text \<open>The parsed JSON object \<^verbatim>\<open>{"toString": 1}\<close>, on which \<^verbatim>\<open>String\<close> throws.\<close>

definition unprintable :: jsval where
  "unprintable = JObj [(js ''toString'', JNum (js ''1''))]"

text \<open>Invocations and actions.\<close>

definition record_fact_call :: "jsval \<Rightarrow> jsval \<Rightarrow> invocation" where
  "record_fact_call i t =
     \<lparr>name = js ''record_fact'', params = [(js ''fact_id'', i), (js ''fact_text'', t)]\<rparr>"

definition navigate_call :: "jsval \<Rightarrow> jsval \<Rightarrow> jsval \<Rightarrow> invocation" where
  "navigate_call u n d =
     \<lparr>name = js ''navigate_to_url'',
      params = [(js ''url'', u), (js ''open_in_new_tab'', n), (js ''description'', d)]\<rparr>"

definition twice :: "(jsval browser \<times> event) list" where
  "twice =
     [(blocked_browser, ClientTool (record_fact_call (JStr (js ''f1'')) (JStr (js ''x'')))),
      (blocked_browser, ClientTool (record_fact_call (JStr (js ''f1'')) (JStr (js ''y''))))]"

definition download_action :: WidgetAction where
  "download_action =
     \<lparr>type = js ''image.download'',
      payload = Some [(js ''url'', JStr (js ''https://example.com/cat.png''))]\<rparr>"

definition open_action_no_url :: WidgetAction where
  "open_action_no_url = \<lparr>type = js ''navigation.open'', payload = Some []\<rparr>"

definition other_action :: WidgetAction where
  "other_action = \<lparr>type = js ''facts.refresh'', payload = None\<rparr>"

section \<open>Properties\<close>

subsection \<open>Counting hand-overs\<close>

lemma saves_append [simp]: "saves f (xs @ ys) = saves f xs + saves f ys"
  by (simp add: saves_def)

lemma saves_Nil [simp]: "saves f [] = 0"
  by (simp add: saves_def)

lemma saves_Cons [simp]: "saves f (e # es) = (if is_save f e then 1 else 0) + saves f es"
  by (simp add: saves_def)

lemma record_fact_step:
  "record_fact invocation facts = (r, facts', out) \<Longrightarrow>
     facts \<subseteq> facts' \<and> saves f out \<le> (if f \<in> facts then 0 else 1)
       \<and> (saves f out = 1 \<longrightarrow> f \<in> facts')"
  by (auto simp: record_fact_def split: if_splits option.splits)

lemma switch_theme_step:
  "switch_theme w invocation facts = (r, facts', out) \<Longrightarrow> facts' = facts \<and> saves f out = 0"
  by (auto simp: switch_theme_def Let_def split: if_splits)

lemma navigate_to_url_step:
  "navigate_to_url w invocation facts = (r, facts', out) \<Longrightarrow> facts' = facts \<and> saves f out = 0"
  by (auto simp: navigate_to_url_def Let_def split: if_splits opened.splits option.splits)

lemma navigate_to_url_ChatKitPanel_step:
  "navigate_to_url_ChatKitPanel w invocation facts = (r, facts', out) \<Longrightarrow>
     facts' = facts \<and> saves f out = 0"
  by (auto simp: navigate_to_url_ChatKitPanel_def Let_def split: if_splits option.splits)

lemma onAction_saves: "saves f (snd (onAction w action item_id)) = 0"
  by (auto simp: onAction_def navigation_open_def image_download_def relay_def Let_def
      split: if_splits opened.splits option.splits image_fetch.splits post_fetch.splits
        sum.splits prod.splits)

lemma onAction_ChatKitPanel_saves: "saves f (snd (onAction_ChatKitPanel w action item_id)) = 0"
  by (auto simp: onAction_ChatKitPanel_def Let_def
      split: if_splits opened.splits post_fetch.splits sum.splits)

lemma onClientTool_step:
  "onClientTool w invocation facts = (r, facts', out) \<Longrightarrow>
     facts \<subseteq> facts' \<and> saves f out \<le> (if f \<in> facts then 0 else 1)
       \<and> (saves f out = 1 \<longrightarrow> f \<in> facts')"
  unfolding onClientTool_def
  using record_fact_step [of invocation facts r facts' out f]
        switch_theme_step [of w invocation facts r facts' out f]
        navigate_to_url_step [of w invocation facts r facts' out f]
  by (auto split: if_splits)

lemma onClientTool_ChatKitPanel_step:
  "onClientTool_ChatKitPanel w invocation facts = (r, facts', out) \<Longrightarrow>
     facts \<subseteq> facts' \<and> saves f out \<le> (if f \<in> facts then 0 else 1)
       \<and> (saves f out = 1 \<longrightarrow> f \<in> facts')"
  unfolding onClientTool_ChatKitPanel_def
  using record_fact_step [of invocation facts r facts' out f]
        switch_theme_step [of w invocation facts r facts' out f]
        navigate_to_url_ChatKitPanel_step [of w invocation facts r facts' out f]
  by (auto split: if_splits)

text \<open>A step respects the dedupe set for the fact id \<open>f\<close> when it only adds to the set,
  hands \<open>f\<close> over at most once and only if \<open>f\<close> was not in the set, and leaves a fact it
  handed over in the set. A run of such steps does the same.\<close>

lemma run_dedupes:
  assumes "\<And>e facts facts' out. e \<in> set es \<Longrightarrow> st e facts = (facts', out) \<Longrightarrow>
      facts \<subseteq> facts' \<and> saves f out \<le> (if f \<in> facts then 0 else 1)
        \<and> (saves f out = 1 \<longrightarrow> f \<in> facts')"
    and "run st es facts = (facts', out)"
  shows "facts \<subseteq> facts' \<and> saves f out \<le> (if f \<in> facts then 0 else 1)
       \<and> (saves f out = 1 \<longrightarrow> f \<in> facts')"
  using assms
proof (induction es arbitrary: facts facts' out)
  case Nil
  then show ?case by auto
next
  case (Cons e es)
  obtain facts1 out1 where s1: "st e facts = (facts1, out1)"
    by (cases "st e facts")
  obtain facts2 out2 where s2: "run st es facts1 = (facts2, out2)"
    by (cases "run st es facts1")
  from Cons.prems(2) s1 s2 have eq: "facts' = facts2" "out = out1 @ out2"
    by auto
  have h1: "facts \<subseteq> facts1 \<and> saves f out1 \<le> (if f \<in> facts then 0 else 1)
       \<and> (saves f out1 = 1 \<longrightarrow> f \<in> facts1)"
    using Cons.prems(1) [of e facts facts1 out1] s1 by simp
  have h2: "facts1 \<subseteq> facts2 \<and> saves f out2 \<le> (if f \<in> facts1 then 0 else 1)
       \<and> (saves f out2 = 1 \<longrightarrow> f \<in> facts2)"
  proof (rule Cons.IH)
    show "run st es facts1 = (facts2, out2)"
      by (rule s2)
  next
    fix e' fa fa' ou
    assume "e' \<in> set es" and "st e' fa = (fa', ou)"
    then show "fa \<subseteq> fa' \<and> saves f ou \<le> (if f \<in> fa then 0 else 1)
        \<and> (saves f ou = 1 \<longrightarrow> f \<in> fa')"
      using Cons.prems(1) [of e' fa fa' ou] by simp
  qed
  show ?case
    using h1 h2 eq by (auto split: if_splits)
qed

lemma step_dedupes:
  "\<not> is_thread_change (snd we) \<Longrightarrow> step we facts = (facts', out) \<Longrightarrow>
     facts \<subseteq> facts' \<and> saves f out \<le> (if f \<in> facts then 0 else 1)
       \<and> (saves f out = 1 \<longrightarrow> f \<in> facts')"
  unfolding step_def
  using onClientTool_step [of "fst we" _ facts _ facts' out f] onAction_saves [of f "fst we"]
  by (cases "snd we") (auto split: prod.splits simp: prod_eq_iff)

lemma step_ChatKitPanel_dedupes:
  "\<not> is_thread_change (snd we) \<Longrightarrow> step_ChatKitPanel we facts = (facts', out) \<Longrightarrow>
     facts \<subseteq> facts' \<and> saves f out \<le> (if f \<in> facts then 0 else 1)
       \<and> (saves f out = 1 \<longrightarrow> f \<in> facts')"
  unfolding step_ChatKitPanel_def
  using onClientTool_ChatKitPanel_step [of "fst we" _ facts _ facts' out f]
        onAction_ChatKitPanel_saves [of f "fst we"]
  by (cases "snd we") (auto split: prod.splits simp: prod_eq_iff)

subsection \<open>Insertion comes first\<close>

lemma add_before_save_None: "add_before_save None ys \<Longrightarrow> add_before_save p ys"
  by (cases "(None :: effect option, ys)" rule: add_before_save.cases) auto

lemma add_before_save_append:
  "add_before_save p xs \<Longrightarrow> add_before_save None ys \<Longrightarrow> add_before_save p (xs @ ys)"
proof (induction p xs rule: add_before_save.induct)
  case (1 prev)
  then show ?case by (simp add: add_before_save_None)
qed auto

lemma onClientTool_order: "add_before_save None (snd (snd (onClientTool w invocation facts)))"
  by (auto simp: onClientTool_def record_fact_def switch_theme_def navigate_to_url_def Let_def
      split: opened.splits option.splits)

lemma onClientTool_ChatKitPanel_order:
  "add_before_save None (snd (snd (onClientTool_ChatKitPanel w invocation facts)))"
  by (auto simp: onClientTool_ChatKitPanel_def record_fact_def switch_theme_def
        navigate_to_url_ChatKitPanel_def Let_def
      split: option.splits)

lemma onAction_order: "add_before_save None (snd (onAction w action item_id))"
  by (auto simp: onAction_def navigation_open_def image_download_def relay_def Let_def
      split: if_splits opened.splits option.splits image_fetch.splits post_fetch.splits
        sum.splits prod.splits)

lemma onAction_ChatKitPanel_order:
  "add_before_save None (snd (onAction_ChatKitPanel w action item_id))"
  by (auto simp: onAction_ChatKitPanel_def Let_def
      split: if_splits opened.splits post_fetch.splits sum.splits)

lemma run_order:
  "(\<And>e facts. e \<in> set es \<Longrightarrow> add_before_save None (snd (st e facts))) \<Longrightarrow>
     add_before_save None (snd (run st es facts))"
proof (induction es arbitrary: facts)
  case Nil
  then show ?case by simp
next
  case (Cons e es)
  have a: "add_before_save None (snd (st e facts))"
    using Cons.prems by simp
  have b: "add_before_save None (snd (run st es (fst (st e facts))))"
    using Cons.IH Cons.prems by simp
  show ?case
    using add_before_save_append [OF a b] by (simp add: case_prod_beta Let_def)
qed

lemma step_order: "add_before_save None (snd (step we facts))"
  unfolding step_def
  using onClientTool_order onAction_order
  by (cases "snd we") (auto simp: onThreadChange_def)

lemma step_ChatKitPanel_order: "add_before_save None (snd (step_ChatKitPanel we facts))"
  unfolding step_ChatKitPanel_def
  using onClientTool_ChatKitPanel_order onAction_ChatKitPanel_order
  by (cases "snd we") (auto simp: onThreadChange_def)

subsection \<open>Deduplication of facts\<close>

text \<open>
  Claim C1. Take any sequence of events of one thread session, that is, one without a
  thread-change event, handled from any state of the dedupe set, in either copy of the panel.
  For every fact id \<open>f\<close>, the persistence callback receives \<open>f\<close> at most once in the whole
  sequence, however many \<^verbatim>\<open>record_fact\<close> invocations carry it; and every hand-over to the
  callback comes directly after the insertion of that id into the dedupe set, never before.
\<close>

theorem record_fact_at_most_once:
  assumes "\<forall>we \<in> set wes. \<not> is_thread_change (snd we)"
  shows "saves f (snd (run step wes facts)) \<le> 1
       \<and> saves f (snd (run step_ChatKitPanel wes facts)) \<le> 1
       \<and> add_before_save None (snd (run step wes facts))
       \<and> add_before_save None (snd (run step_ChatKitPanel wes facts))"
proof -
  have "facts \<subseteq> fst (run step wes facts)
      \<and> saves f (snd (run step wes facts)) \<le> (if f \<in> facts then 0 else 1)
      \<and> (saves f (snd (run step wes facts)) = 1 \<longrightarrow> f \<in> fst (run step wes facts))"
  proof (rule run_dedupes)
    show "run step wes facts = (fst (run step wes facts), snd (run step wes facts))"
      by simp
  next
    fix e :: "'a browser \<times> event" and fa fa' ou
    assume "e \<in> set wes" and "step e fa = (fa', ou)"
    then show "fa \<subseteq> fa' \<and> saves f ou \<le> (if f \<in> fa then 0 else 1)
        \<and> (saves f ou = 1 \<longrightarrow> f \<in> fa')"
      using step_dedupes [of e fa fa' ou f] assms by blast
  qed
  then have "saves f (snd (run step wes facts)) \<le> (if f \<in> facts then 0 else 1)"
    by blast
  moreover have "facts \<subseteq> fst (run step_ChatKitPanel wes facts)
      \<and> saves f (snd (run step_ChatKitPanel wes facts)) \<le> (if f \<in> facts then 0 else 1)
      \<and> (saves f (snd (run step_ChatKitPanel wes facts)) = 1
           \<longrightarrow> f \<in> fst (run step_ChatKitPanel wes facts))"
  proof (rule run_dedupes)
    show "run step_ChatKitPanel wes facts =
        (fst (run step_ChatKitPanel wes facts), snd (run step_ChatKitPanel wes facts))"
      by simp
  next
    fix e :: "'a browser \<times> event" and fa fa' ou
    assume "e \<in> set wes" and "step_ChatKitPanel e fa = (fa', ou)"
    then show "fa \<subseteq> fa' \<and> saves f ou \<le> (if f \<in> fa then 0 else 1)
        \<and> (saves f ou = 1 \<longrightarrow> f \<in> fa')"
      using step_ChatKitPanel_dedupes [of e fa fa' ou f] assms by blast
  qed
  then have
    "saves f (snd (run step_ChatKitPanel wes facts)) \<le> (if f \<in> facts then 0 else 1)"
    by blast
  moreover have "add_before_save None (snd (run step wes facts))"
    by (rule run_order) (rule step_order)
  moreover have "add_before_save None (snd (run step_ChatKitPanel wes facts))"
    by (rule run_order) (rule step_ChatKitPanel_order)
  ultimately show ?thesis
    by (auto split: if_splits)
qed

text \<open>The same fact id recorded twice in a row, from the empty dedupe set.\<close>

theorem record_fact_at_most_once_witness:
  "list_all (\<lambda>we. \<not> is_thread_change (snd we)) twice
   \<and> saves (js ''f1'') (snd (run step twice {})) \<le> 1
   \<and> saves (js ''f1'') (snd (run step_ChatKitPanel twice {})) \<le> 1
   \<and> add_before_save None (snd (run step twice {}))
   \<and> add_before_save None (snd (run step_ChatKitPanel twice {}))"
proof -
  have h: "\<forall>we \<in> set twice. \<not> is_thread_change (snd we)"
    by (simp add: twice_def)
  show ?thesis
    using h record_fact_at_most_once [OF h, of "js ''f1''" "{}"]
    by (simp add: list_all_iff)
qed

subsection \<open>Whitespace normalisation\<close>

lemma is_ws_space [simp]: "is_ws 0x20"
  by (simp add: is_ws_def)

lemma trimEnd_Nil [simp]: "trimEnd [] = []"
  by (simp add: trimEnd_def)

lemma trimEnd_append:
  "trimEnd (a @ b) = (if trimEnd b = [] then trimEnd a else a @ trimEnd b)"
  by (auto simp: trimEnd_def dropWhile_append)

lemma trimEnd_Cons:
  "trimEnd (c # b) = (if trimEnd b = [] then (if is_ws c then [] else [c]) else c # trimEnd b)"
  using trimEnd_append [of "[c]" b] by (auto simp: trimEnd_def)

lemma trimEnd_nonws: "\<forall>x \<in> set w. \<not> is_ws x \<Longrightarrow> trimEnd w = w"
  by (induction w) (auto simp: trimEnd_Cons)

lemma replace_ws_split:
  "replace_ws xs =
     takeWhile (\<lambda>x. \<not> is_ws x) xs @ replace_ws (dropWhile (\<lambda>x. \<not> is_ws x) xs)"
  by (induction xs) auto

lemma tokens_nonempty: "[] \<notin> set (tokens s)"
  by (induction s rule: tokens.induct) auto

lemma join_Nil_iff: "[] \<notin> set ts \<Longrightarrow> join sep ts = [] \<longleftrightarrow> ts = []"
  by (induction sep ts rule: join.induct) auto

lemma join_Cons: "join sep (t # ts) = (if ts = [] then t else t @ sep @ join sep ts)"
  by (cases ts) auto

lemma trimEnd_replace_ws:
  "trimEnd (replace_ws (dropWhile is_ws t)) = join [0x20] (tokens t)"
proof (induction t rule: tokens.induct)
  case 1
  then show ?case by simp
next
  case (2 c cs)
  show ?case
  proof (cases "is_ws c")
    case True
    then show ?thesis using 2 by simp
  next
    case False
    define w where "w = c # takeWhile (\<lambda>x. \<not> is_ws x) cs"
    define rest where "rest = dropWhile (\<lambda>x. \<not> is_ws x) cs"
    have ih: "trimEnd (replace_ws (dropWhile is_ws rest)) = join [0x20] (tokens rest)"
      using 2(2) False by (simp add: rest_def)
    have w: "trimEnd w = w" "w \<noteq> []"
      using False by (auto simp: w_def intro!: trimEnd_nonws dest: set_takeWhileD)
    have r: "replace_ws (c # cs) = w @ replace_ws rest"
      using False replace_ws_split [of cs] by (simp add: w_def rest_def)
    have tk: "tokens (c # cs) = w # tokens rest"
      using False by (simp add: w_def rest_def)
    have rest_hd: "rest = [] \<or> is_ws (hd rest)"
      unfolding rest_def using hd_dropWhile [of "\<lambda>x. \<not> is_ws x" cs] by auto
    show ?thesis
    proof (cases rest)
      case Nil
      then show ?thesis using False r tk w by (simp add: trimEnd_append)
    next
      case (Cons r0 rs)
      then have ws0: "is_ws r0"
        using rest_hd by simp
      have rr: "replace_ws rest = 0x20 # replace_ws (dropWhile is_ws rest)"
        using Cons ws0 by simp
      have nz: "join [0x20] (tokens rest) = [] \<longleftrightarrow> tokens rest = []"
        by (rule join_Nil_iff) (rule tokens_nonempty)
      show ?thesis
        using False r tk w rr ih nz
        by (simp add: trimEnd_append trimEnd_Cons join_Cons)
    qed
  qed
qed

lemma dropWhile_replace_ws_id:
  "t = [] \<or> \<not> is_ws (hd t) \<Longrightarrow> dropWhile is_ws (replace_ws t) = replace_ws t"
  by (cases t) auto

lemma dropWhile_replace_ws: "dropWhile is_ws (replace_ws s) = replace_ws (dropWhile is_ws s)"
proof (cases s)
  case Nil
  then show ?thesis by simp
next
  case (Cons c cs)
  show ?thesis
  proof (cases "is_ws c")
    case True
    have "dropWhile is_ws cs = [] \<or> \<not> is_ws (hd (dropWhile is_ws cs))"
      using hd_dropWhile [of is_ws cs] by blast
    then have
      "dropWhile is_ws (replace_ws (dropWhile is_ws cs)) = replace_ws (dropWhile is_ws cs)"
      by (rule dropWhile_replace_ws_id)
    then show ?thesis using Cons True by simp
  next
    case False
    then show ?thesis using Cons by simp
  qed
qed

lemma normalize_spec: "trim (replace_ws s) = spec_normalize s"
  using trimEnd_replace_ws [of s]
  by (simp add: trim_def spec_normalize_def dropWhile_replace_ws trimEnd_def)

lemma tool_names [simp]:
  "js ''record_fact'' \<noteq> js ''switch_theme''"
  "js ''navigate_to_url'' \<noteq> js ''switch_theme''"
  "js ''navigate_to_url'' \<noteq> js ''record_fact''"
  by (simp_all add: js_def)

text \<open>
  Claim C7. Take a \<^verbatim>\<open>record_fact\<close> invocation whose fact id is not empty and not yet in the
  dedupe set. The text it hands to the persistence callback is the fact text, converted to
  a string, normalised as the specification words it: the words of the text with single
  spaces between them, no whitespace at either end. The hand-over takes place whenever the
  conversion of the fact text gives a string; when that conversion throws, nothing is handed
  over. Both copies of the panel do so. At the text \<^verbatim>\<open>"  a   b\n c "\<close> the callback receives
  \<^verbatim>\<open>"a b c"\<close>.
\<close>

theorem record_fact_normalizes_text:
  assumes "name invocation = js ''record_fact''"
    and "String_js (coalesce (property (params invocation) ''fact_id'') (JStr [])) = Some f"
    and "f \<noteq> []" and "f \<notin> facts"
  shows "onClientTool w invocation facts =
           (case String_js (coalesce (property (params invocation) ''fact_text'') (JStr [])) of
              None \<Rightarrow> (Inl TypeError, facts, [])
            | Some text \<Rightarrow>
                (Inr \<lparr>success = True\<rparr>, insert f facts,
                 [FactsAdd f, OnWidgetAction (Save f (spec_normalize text))]))
       \<and> onClientTool_ChatKitPanel w invocation facts =
           (case String_js (coalesce (property (params invocation) ''fact_text'') (JStr [])) of
              None \<Rightarrow> (Inl TypeError, facts, [])
            | Some text \<Rightarrow>
                (Inr \<lparr>success = True\<rparr>, insert f facts,
                 [FactsAdd f, OnWidgetAction (Save f (spec_normalize text))]))"
  using assms
  by (simp add: onClientTool_def onClientTool_ChatKitPanel_def record_fact_def normalize_spec
      split: option.splits)

theorem record_fact_normalizes_text_witness:
  "onClientTool blocked_browser
     (record_fact_call (JStr (js ''f1'')) (JStr (js ''  a   b\<newline> c ''))) {} =
     (Inr \<lparr>success = True\<rparr>, {js ''f1''},
      [FactsAdd (js ''f1''), OnWidgetAction (Save (js ''f1'') (js ''a b c''))])
   \<and> onClientTool_ChatKitPanel blocked_browser
     (record_fact_call (JStr (js ''f1'')) (JStr (js ''  a   b\<newline> c ''))) {} =
     (Inr \<lparr>success = True\<rparr>, {js ''f1''},
      [FactsAdd (js ''f1''), OnWidgetAction (Save (js ''f1'') (js ''a b c''))])"
proof -
  let ?i = "record_fact_call (JStr (js ''f1'')) (JStr (js ''  a   b\<newline> c ''))"
  have h1: "name ?i = js ''record_fact''"
    by (simp add: record_fact_call_def)
  have h2: "String_js (coalesce (property (params ?i) ''fact_id'') (JStr [])) = Some (js ''f1'')"
    by (simp add: record_fact_call_def property_def coalesce_def)
  have h3: "js ''f1'' \<noteq> []"
    by (simp add: js_def)
  have h4: "js ''f1'' \<notin> {}"
    by simp
  have t: "String_js (coalesce (property (params ?i) ''fact_text'') (JStr []))
      = Some (js ''  a   b\<newline> c '')"
    by (simp add: record_fact_call_def property_def coalesce_def js_def)
  have n: "spec_normalize (js ''  a   b\<newline> c '') = js ''a b c''"
    by (simp add: spec_normalize_def js_def is_ws_def)
  show ?thesis
    using record_fact_normalizes_text [OF h1 h2 h3 h4, of blocked_browser]
    by (simp add: t n)
qed

subsection \<open>Unknown tools and empty fact ids\<close>

text \<open>
  Claim C8. An invocation whose name is none of \<^verbatim>\<open>switch_theme\<close>, \<^verbatim>\<open>record_fact\<close> and
  \<^verbatim>\<open>navigate_to_url\<close> makes the dispatcher return \<^verbatim>\<open>{ success: false }\<close>: the promise is
  fulfilled, not rejected, the dedupe set is unchanged and no effect is issued. Both copies
  of the panel do so.
\<close>

theorem unknown_tool_returns_failure:
  assumes "name invocation \<noteq> js ''switch_theme''"
    and "name invocation \<noteq> js ''record_fact''"
    and "name invocation \<noteq> js ''navigate_to_url''"
  shows "onClientTool w invocation facts = (Inr \<lparr>success = False\<rparr>, facts, [])
       \<and> onClientTool_ChatKitPanel w invocation facts = (Inr \<lparr>success = False\<rparr>, facts, [])"
  using assms by (simp add: onClientTool_def onClientTool_ChatKitPanel_def)

theorem unknown_tool_returns_failure_witness:
  "onClientTool blocked_browser \<lparr>name = js ''get_weather'', params = []\<rparr> {js ''f1''} =
     (Inr \<lparr>success = False\<rparr>, {js ''f1''}, [])
   \<and> onClientTool_ChatKitPanel blocked_browser \<lparr>name = js ''get_weather'', params = []\<rparr>
       {js ''f1''} =
     (Inr \<lparr>success = False\<rparr>, {js ''f1''}, [])"
  using unknown_tool_returns_failure
    [of "\<lparr>name = js ''get_weather'', params = []\<rparr>" blocked_browser "{js ''f1''}"]
  by (simp add: js_def)

text \<open>
  Claim C9, as it is worded, has every \<^verbatim>\<open>record_fact\<close> invocation with an empty fact id
  return \<^verbatim>\<open>{ success: true }\<close>. The handler converts the fact text to a string before it
  tests the id, outside any \<^verbatim>\<open>try\<close>: with the empty id and the fact text \<^verbatim>\<open>{"toString": 1}\<close>
  the conversion throws and the promise is rejected.
\<close>

theorem record_fact_empty_id_counterexample:
  "onClientTool blocked_browser (record_fact_call (JStr []) unprintable) {} =
     (Inl TypeError, {}, [])
   \<and> onClientTool_ChatKitPanel blocked_browser (record_fact_call (JStr []) unprintable) {} =
     (Inl TypeError, {}, [])"
  by (simp add: onClientTool_def onClientTool_ChatKitPanel_def record_fact_def
      record_fact_call_def unprintable_def property_def coalesce_def js_def)

text \<open>
  Claim C9, amended. A \<^verbatim>\<open>record_fact\<close> invocation whose fact id converts to the empty string
  hands nothing to the persistence callback (it issues no effect at all) and leaves the
  dedupe set as it was. It returns \<^verbatim>\<open>{ success: true }\<close> when the conversion of the fact text
  gives a string; when that conversion throws, the promise is rejected. Both copies of the
  panel do so.
\<close>

theorem record_fact_empty_id:
  assumes "name invocation = js ''record_fact''"
    and "String_js (coalesce (property (params invocation) ''fact_id'') (JStr [])) = Some []"
  shows "onClientTool w invocation facts =
           (if String_js (coalesce (property (params invocation) ''fact_text'') (JStr [])) = None
            then Inl TypeError else Inr \<lparr>success = True\<rparr>, facts, [])
       \<and> onClientTool_ChatKitPanel w invocation facts =
           (if String_js (coalesce (property (params invocation) ''fact_text'') (JStr [])) = None
            then Inl TypeError else Inr \<lparr>success = True\<rparr>, facts, [])"
  using assms
  by (simp add: onClientTool_def onClientTool_ChatKitPanel_def record_fact_def
      split: option.splits)

theorem record_fact_empty_id_witness:
  "onClientTool blocked_browser (record_fact_call (JStr []) (JStr (js ''likes tea''))) {} =
     (Inr \<lparr>success = True\<rparr>, {}, [])
   \<and> onClientTool_ChatKitPanel blocked_browser
       (record_fact_call (JStr []) (JStr (js ''likes tea''))) {} =
     (Inr \<lparr>success = True\<rparr>, {}, [])"
proof -
  let ?i = "record_fact_call (JStr []) (JStr (js ''likes tea''))"
  have h1: "name ?i = js ''record_fact''"
    by (simp add: record_fact_call_def)
  have h2: "String_js (coalesce (property (params ?i) ''fact_id'') (JStr [])) = Some []"
    by (simp add: record_fact_call_def property_def coalesce_def)
  have t: "String_js (coalesce (property (params ?i) ''fact_text'') (JStr []))
      = Some (js ''likes tea'')"
    by (simp add: record_fact_call_def property_def coalesce_def js_def)
  show ?thesis
    using record_fact_empty_id [OF h1 h2, of blocked_browser "{}"]
    by (simp add: t)
qed

subsection \<open>Thread changes\<close>

text \<open>
  Claim C3, as it is worded, has every \<^verbatim>\<open>record_fact\<close> invocation that carries a fact id
  persisted before the thread change reach the persistence callback after it. With the fact
  text \<^verbatim>\<open>{"toString": 1}\<close> the conversion of the text throws, before the dedupe set is looked
  at: the only effect of the two events is the clearing of the set, and the promise is
  rejected.
\<close>

theorem thread_change_resets_dedupe_counterexample:
  "snd (run step
     [(blocked_browser, ThreadChange),
      (blocked_browser, ClientTool (record_fact_call (JStr (js ''f1'')) unprintable))]
     {js ''f1''}) = [FactsClear]
   \<and> snd (run step_ChatKitPanel
     [(blocked_browser, ThreadChange),
      (blocked_browser, ClientTool (record_fact_call (JStr (js ''f1'')) unprintable))]
     {js ''f1''}) = [FactsClear]
   \<and> fst (onClientTool blocked_browser (record_fact_call (JStr (js ''f1'')) unprintable) {}) =
     Inl TypeError"
  by (simp add: step_def step_ChatKitPanel_def onThreadChange_def onClientTool_def
      onClientTool_ChatKitPanel_def record_fact_def record_fact_call_def unprintable_def
      property_def coalesce_def js_def)

text \<open>
  Claim C3, amended. A thread change empties the dedupe set whatever it held. A
  \<^verbatim>\<open>record_fact\<close> invocation with a non-empty fact id \<open>f\<close> that comes right after a thread
  change hands \<open>f\<close> to the persistence callback, also when \<open>f\<close> was in the set before the
  change, provided the conversion of its fact text gives a string; when that conversion
  throws, nothing is handed over. No tool invocation ever removes an id from the set. Both
  copies of the panel do so.
\<close>

theorem thread_change_resets_dedupe:
  assumes "name invocation = js ''record_fact''"
    and "String_js (coalesce (property (params invocation) ''fact_id'') (JStr [])) = Some f"
    and "f \<noteq> []"
  shows "fst (onThreadChange facts) = {}
       \<and> saves f (snd (run step [(w1, ThreadChange), (w2, ClientTool invocation)] facts)) =
           (if String_js (coalesce (property (params invocation) ''fact_text'') (JStr [])) = None
            then 0 else 1)
       \<and> saves f (snd (run step_ChatKitPanel
             [(w1, ThreadChange), (w2, ClientTool invocation)] facts)) =
           (if String_js (coalesce (property (params invocation) ''fact_text'') (JStr [])) = None
            then 0 else 1)
       \<and> facts \<subseteq> fst (snd (onClientTool w3 invocation' facts))
       \<and> facts \<subseteq> fst (snd (onClientTool_ChatKitPanel w3 invocation' facts))"
proof -
  have a: "fst (onThreadChange facts) = {}"
    by (simp add: onThreadChange_def)
  have b: "saves f (snd (run step [(w1, ThreadChange), (w2, ClientTool invocation)] facts)) =
      (if String_js (coalesce (property (params invocation) ''fact_text'') (JStr [])) = None
       then 0 else 1)"
    using assms
    by (simp add: step_def onThreadChange_def onClientTool_def record_fact_def
        split: option.splits)
  have c: "saves f (snd (run step_ChatKitPanel
             [(w1, ThreadChange), (w2, ClientTool invocation)] facts)) =
      (if String_js (coalesce (property (params invocation) ''fact_text'') (JStr [])) = None
       then 0 else 1)"
    using assms
    by (simp add: step_ChatKitPanel_def onThreadChange_def onClientTool_ChatKitPanel_def
        record_fact_def split: option.splits)
  have d: "facts \<subseteq> fst (snd (onClientTool w3 invocation' facts))"
    using onClientTool_step [of w3 invocation' facts
        "fst (onClientTool w3 invocation' facts)"
        "fst (snd (onClientTool w3 invocation' facts))"
        "snd (snd (onClientTool w3 invocation' facts))" f]
    by simp
  have e: "facts \<subseteq> fst (snd (onClientTool_ChatKitPanel w3 invocation' facts))"
    using onClientTool_ChatKitPanel_step [of w3 invocation' facts
        "fst (onClientTool_ChatKitPanel w3 invocation' facts)"
        "fst (snd (onClientTool_ChatKitPanel w3 invocation' facts))"
        "snd (snd (onClientTool_ChatKitPanel w3 invocation' facts))" f]
    by simp
  show ?thesis
    using a b c d e by simp
qed

text \<open>The fact \<^verbatim>\<open>f1\<close> is in the dedupe set, the thread changes, and \<^verbatim>\<open>f1\<close> is recorded
  again with a text that is a string.\<close>

theorem thread_change_resets_dedupe_witness:
  "fst (onThreadChange {js ''f1''}) = {}
   \<and> saves (js ''f1'')
       (snd (run step
          [(blocked_browser, ThreadChange),
           (blocked_browser, ClientTool (record_fact_call (JStr (js ''f1'')) (JStr (js ''x''))))]
          {js ''f1''})) = 1
   \<and> saves (js ''f1'')
       (snd (run step_ChatKitPanel
          [(blocked_browser, ThreadChange),
           (blocked_browser, ClientTool (record_fact_call (JStr (js ''f1'')) (JStr (js ''x''))))]
          {js ''f1''})) = 1"
proof -
  let ?i = "record_fact_call (JStr (js ''f1'')) (JStr (js ''x''))"
  have h1: "name ?i = js ''record_fact''"
    by (simp add: record_fact_call_def)
  have h2: "String_js (coalesce (property (params ?i) ''fact_id'') (JStr [])) = Some (js ''f1'')"
    by (simp add: record_fact_call_def property_def coalesce_def)
  have h3: "js ''f1'' \<noteq> []"
    by (simp add: js_def)
  have t: "String_js (coalesce (property (params ?i) ''fact_text'') (JStr [])) \<noteq> None"
    by (simp add: record_fact_call_def property_def coalesce_def js_def)
  show ?thesis
    using thread_change_resets_dedupe
      [OF h1 h2 h3, of "{js ''f1''}" blocked_browser blocked_browser] t
    by presburger
qed

subsection \<open>Navigation\<close>


text \<open>
  Claim C2, as it is worded, has the handler return \<^verbatim>\<open>{ success: true }\<close> whenever the new tab
  is refused. Two things stand against it. The description is converted to a string before
  the \<^verbatim>\<open>try\<close>: with the description \<^verbatim>\<open>{"toString": 1}\<close> the promise is rejected and nothing
  navigates. And the fallback assignment is inside the \<^verbatim>\<open>try\<close>: in a browser where it throws,
  the handler returns \<^verbatim>\<open>{ success: false }\<close>.
\<close>

theorem navigate_blocked_new_tab_counterexample:
  "onClientTool blocked_browser
     (navigate_call (JStr (js ''https://example.com'')) (JBool True) unprintable) {} =
     (Inl TypeError, {}, [])
   \<and> onClientTool stuck_browser
     (navigate_call (JStr (js ''https://example.com'')) (JBool True) JUndefined) {} =
     (Inr \<lparr>success = False\<rparr>, {},
      [Console Log, WindowOpen (JStr (js ''https://example.com'')), Console Warn,
       LocationHref (JStr (js ''https://example.com'')), Console Error])"
  by (simp add: onClientTool_def navigate_to_url_def navigate_call_def unprintable_def
      property_def coalesce_def blocked_browser_def stuck_browser_def js_def)

text \<open>
  Claim C2, amended. Take a \<^verbatim>\<open>navigate_to_url\<close> invocation whose url converts to a non-empty
  string and whose \<^verbatim>\<open>open_in_new_tab\<close> is truthy, in a browser where \<^verbatim>\<open>window.open\<close> returns
  no window for that url. When the conversion of the description throws, the promise is
  rejected and nothing navigates. Otherwise the panel of \<^verbatim>\<open>unnamed/part_000\<close> tries the new
  tab, then assigns the same url to \<^verbatim>\<open>window.location.href\<close>, and returns
  \<^verbatim>\<open>{ success: true }\<close> when that assignment completes, \<^verbatim>\<open>{ success: false }\<close> when it throws.
  The panel of \<^verbatim>\<open>ChatKitPanel.tsx\<close> never tries a new tab: it assigns the url directly, with
  the same two returns.
\<close>

theorem navigate_blocked_new_tab_falls_back:
  assumes "name invocation = js ''navigate_to_url''"
    and "String_js (coalesce (property (params invocation) ''url'') (JStr [])) = Some url"
    and "url \<noteq> []"
    and "Boolean_js (coalesce (property (params invocation) ''open_in_new_tab'') (JBool True))"
    and "window_open w (JStr url) = NoWindow"
  shows "onClientTool w invocation facts =
           (if String_js (coalesce (property (params invocation) ''description'') (JStr []))
               = None
            then (Inl TypeError, facts, [])
            else (Inr \<lparr>success = (location_href w (JStr url) = None)\<rparr>, facts,
                  (if DEV w then [Console Debug] else []) @
                  [Console Log, WindowOpen (JStr url), Console Warn, LocationHref (JStr url)] @
                  (if location_href w (JStr url) = None then [] else [Console Error])))
       \<and> onClientTool_ChatKitPanel w invocation facts =
           (if String_js (coalesce (property (params invocation) ''description'') (JStr []))
               = None
            then (Inl TypeError, facts, [])
            else (Inr \<lparr>success = (location_href w (JStr url) = None)\<rparr>, facts,
                  (if DEV w then [Console Debug] else []) @ [LocationHref (JStr url)] @
                  (if location_href w (JStr url) = None then [] else [Console Error])))"
  using assms
  by (auto simp: onClientTool_def onClientTool_ChatKitPanel_def navigate_to_url_def
      navigate_to_url_ChatKitPanel_def Let_def split: option.splits)

theorem navigate_blocked_new_tab_falls_back_witness:
  "onClientTool blocked_browser
     (navigate_call (JStr (js ''https://example.com'')) (JBool True) JUndefined) {} =
     (Inr \<lparr>success = True\<rparr>, {},
      [Console Log, WindowOpen (JStr (js ''https://example.com'')), Console Warn,
       LocationHref (JStr (js ''https://example.com''))])
   \<and> onClientTool_ChatKitPanel blocked_browser
     (navigate_call (JStr (js ''https://example.com'')) (JBool True) JUndefined) {} =
     (Inr \<lparr>success = True\<rparr>, {}, [LocationHref (JStr (js ''https://example.com''))])"
proof -
  let ?i = "navigate_call (JStr (js ''https://example.com'')) (JBool True) JUndefined"
  have h1: "name ?i = js ''navigate_to_url''"
    by (simp add: navigate_call_def)
  have h2: "String_js (coalesce (property (params ?i) ''url'') (JStr []))
      = Some (js ''https://example.com'')"
    by (simp add: navigate_call_def property_def coalesce_def js_def)
  have h3: "js ''https://example.com'' \<noteq> []"
    by (simp add: js_def)
  have h4: "Boolean_js (coalesce (property (params ?i) ''open_in_new_tab'') (JBool True))"
    by (simp add: navigate_call_def property_def coalesce_def js_def)
  have h5: "window_open blocked_browser (JStr (js ''https://example.com'')) = NoWindow"
    by (simp add: blocked_browser_def)
  have d: "String_js (coalesce (property (params ?i) ''description'') (JStr [])) = Some []"
    by (simp add: navigate_call_def property_def coalesce_def js_def)
  have e: "location_href blocked_browser (JStr (js ''https://example.com'')) = None"
    "DEV blocked_browser = False"
    by (simp_all add: blocked_browser_def)
  show ?thesis
    using navigate_blocked_new_tab_falls_back [OF h1 h2 h3 h4 h5, of "{}"]
    by (simp add: d e)
qed




subsection \<open>Widget actions\<close>

lemma action_types [simp]:
  "js ''image.download'' \<noteq> js ''navigation.open''"
  "js ''image_generation.download'' \<noteq> js ''navigation.open''"
  "js ''facts.refresh'' \<noteq> js ''navigation.open''"
  "js ''facts.refresh'' \<noteq> js ''image.download''"
  "js ''facts.refresh'' \<noteq> js ''image_generation.download''"
  by (simp_all add: js_def)

text \<open>
  Claim C4, as it is worded, has the failed download return a failed result. The handler
  returns nothing there, \<^verbatim>\<open>undefined\<close>, which is also what the successful download
  returns; it is not the \<^verbatim>\<open>{ success: false, error }\<close> of the relay branch.
\<close>

theorem image_download_failure_result_counterexample:
  "onAction blocked_browser download_action (js ''item1'') =
     (Inr Undefined,
      [Console Log, Console Log, Console Log, Console Log, Console Log, Console Log,
       Fetch (JStr (js ''https://example.com/cat.png'')), Console Error, Alert])
   \<and> fst (onAction ok_browser download_action (js ''item1'')) = Inr Undefined
   \<and> (Inr Undefined :: error + jsval ActionResult) \<noteq> Inr (Failure (js ''Failed to fetch''))"
  by (simp add: onAction_def image_download_def download_action_def blocked_browser_def
      ok_browser_def payload_url_def property_def ok_def Let_def js_def)

text \<open>
  Claim C4, amended. In the panel of \<^verbatim>\<open>unnamed/part_000\<close>, for an \<^verbatim>\<open>image.download\<close> or
  \<^verbatim>\<open>image_generation.download\<close> action with a truthy \<^verbatim>\<open>payload.url\<close> whose fetch is
  rejected or answers with a non-success status, the handler logs the error, shows the
  failure notice with \<^verbatim>\<open>alert\<close>, and its promise is fulfilled with \<^verbatim>\<open>undefined\<close>: it never
  throws, and it returns no result value.
\<close>

theorem image_download_failure_alerts:
  assumes "type action = js ''image.download'' \<or> type action = js ''image_generation.download''"
    and "Boolean_js (payload_url action)"
    and "fetch_failed (fetch_image w (payload_url action))"
  shows "onAction w action item_id =
     (Inr Undefined,
      [Console Log, Console Log, Console Log, Console Log, Console Log, Console Log,
       Fetch (payload_url action), Console Error, Alert])"
proof -
  have t: "type action \<noteq> js ''navigation.open''"
    using assms(1) by auto
  show ?thesis
    using assms t
    by (cases "fetch_image w (payload_url action)")
       (auto simp: onAction_def image_download_def Let_def)
qed

theorem image_download_failure_alerts_witness:
  "onAction error_browser download_action (js ''item1'') =
     (Inr Undefined,
      [Console Log, Console Log, Console Log, Console Log, Console Log, Console Log,
       Fetch (JStr (js ''https://example.com/cat.png'')), Console Error, Alert])"
proof -
  have u: "payload_url download_action = JStr (js ''https://example.com/cat.png'')"
    by (simp add: download_action_def payload_url_def property_def)
  have a: "type download_action = js ''image.download''
         \<or> type download_action = js ''image_generation.download''"
    by (simp add: download_action_def)
  have b: "Boolean_js (payload_url download_action)"
    by (simp add: u js_def)
  have c: "fetch_failed (fetch_image error_browser (payload_url download_action))"
    by (simp add: error_browser_def ok_def)
  show ?thesis
    using image_download_failure_alerts [OF a b c, of "js ''item1''"] by (simp add: u)
qed

text \<open>
  Claim C5, as it is worded, has a non-2xx response treated as an error. The relay never
  looks at the status: a response with status 500 whose body parses is returned as the
  result, in both copies of the panel.
\<close>

theorem relay_non_2xx_counterexample:
  "fst (onAction error_browser other_action (js ''item1'')) = Inr (Result (JObj []))
   \<and> fst (onAction_ChatKitPanel error_browser other_action (js ''item1'')) = Inr (Result (JObj []))
   \<and> post_widget_action error_browser other_action (js ''item1'') = PostResponse 500 (Inr (JObj []))
   \<and> \<not> ok 500"
  by (simp add: onAction_def onAction_ChatKitPanel_def relay_def other_action_def
      error_browser_def ok_def)

text \<open>
  Claim C5, amended. A relayed widget action gives back \<open>relayed_result\<close> of the request's
  outcome: a rejected request and a body that does not parse as JSON both give
  \<^verbatim>\<open>{ success: false, error: message }\<close>, with the message of the error; a body that parses
  is returned unchanged, whatever the HTTP status of the response. The panel of
  \<^verbatim>\<open>unnamed/part_000\<close> relays the actions of a type other than \<^verbatim>\<open>navigation.open\<close>,
  \<^verbatim>\<open>image.download\<close> and \<^verbatim>\<open>image_generation.download\<close>. The panel of \<^verbatim>\<open>ChatKitPanel.tsx\<close>
  relays every action; the statement leaves out only its \<^verbatim>\<open>navigation.open\<close> actions with a
  url on which \<^verbatim>\<open>window.open\<close> throws, since that error is caught by the same \<^verbatim>\<open>try\<close>.
\<close>

theorem relay_results:
  "(type action \<noteq> js ''navigation.open'' \<and> type action \<noteq> js ''image.download''
      \<and> type action \<noteq> js ''image_generation.download'' \<longrightarrow>
      fst (onAction w action item_id) = relayed_result (post_widget_action w action item_id)
      \<and> FetchPost action item_id \<in> set (snd (onAction w action item_id)))
   \<and> (\<not> (type action = js ''navigation.open'' \<and> Boolean_js (payload_url action)
          \<and> open_throws (window_open w (payload_url action))) \<longrightarrow>
      fst (onAction_ChatKitPanel w action item_id) =
        relayed_result (post_widget_action w action item_id))
   \<and> FetchPost action item_id \<in> set (snd (onAction_ChatKitPanel w action item_id))"
proof -
  have a: "fst (relay w action item_id) = relayed_result (post_widget_action w action item_id)"
    by (cases "post_widget_action w action item_id" rule: relayed_result.cases)
       (simp_all add: relay_def)
  have b: "FetchPost action item_id \<in> set (snd (relay w action item_id))"
    by (simp add: relay_def split: post_fetch.splits sum.splits)
  have c: "\<not> (type action = js ''navigation.open'' \<and> Boolean_js (payload_url action)
          \<and> open_throws (window_open w (payload_url action))) \<Longrightarrow>
      fst (onAction_ChatKitPanel w action item_id) =
        relayed_result (post_widget_action w action item_id)"
    by (cases "post_widget_action w action item_id" rule: relayed_result.cases;
        cases "window_open w (payload_url action)")
       (auto simp: onAction_ChatKitPanel_def)
  have d: "FetchPost action item_id \<in> set (snd (onAction_ChatKitPanel w action item_id))"
    by (simp add: onAction_ChatKitPanel_def split: post_fetch.splits sum.splits opened.splits)
  show ?thesis
    using a b c d by (simp add: onAction_def case_prod_beta)
qed

theorem relay_results_witness:
  "fst (onAction blocked_browser other_action (js ''item1'')) =
     Inr (Failure (js ''Failed to fetch''))
   \<and> fst (onAction_ChatKitPanel blocked_browser other_action (js ''item1'')) =
     Inr (Failure (js ''Failed to fetch''))
   \<and> fst (onAction error_browser other_action (js ''item1'')) = Inr (Result (JObj []))
   \<and> fst (onAction_ChatKitPanel error_browser download_action (js ''item1'')) =
     Inr (Result (JObj []))"
proof -
  have t: "type other_action \<noteq> js ''navigation.open'' \<and> type other_action \<noteq> js ''image.download''
      \<and> type other_action \<noteq> js ''image_generation.download''"
    by (simp add: other_action_def)
  have n: "\<not> (type other_action = js ''navigation.open'' \<and> Boolean_js (payload_url other_action)
      \<and> open_throws (window_open w (payload_url other_action)))" for w :: "jsval browser"
    by (simp add: other_action_def)
  have n': "\<not> (type download_action = js ''navigation.open''
      \<and> Boolean_js (payload_url download_action)
      \<and> open_throws (window_open w (payload_url download_action)))" for w :: "jsval browser"
    by (simp add: download_action_def)
  have p1: "relayed_result (post_widget_action blocked_browser other_action (js ''item1''))
      = (Inr (Failure (js ''Failed to fetch'')) :: error + jsval ActionResult)"
    by (simp add: blocked_browser_def)
  have p2: "relayed_result (post_widget_action error_browser a (js ''item1''))
      = (Inr (Result (JObj [])) :: error + jsval ActionResult)" for a
    by (simp add: error_browser_def)
  show ?thesis
    using relay_results [of other_action blocked_browser "js ''item1''"]
          relay_results [of other_action error_browser "js ''item1''"]
          relay_results [of download_action error_browser "js ''item1''"]
          t n n'
    by (simp only: p1 p2 simp_thms)
qed

text \<open>
  Claim C6, as it is worded, has no backend request and no error for a \<^verbatim>\<open>navigation.open\<close>
  action without a url. The panel of \<^verbatim>\<open>ChatKitPanel.tsx\<close> sends every action to the
  backend before it looks at the type, and returns the failure when that request fails.
\<close>

theorem navigation_open_no_url_counterexample:
  "onAction_ChatKitPanel blocked_browser open_action_no_url (js ''item1'') =
     (Inr (Failure (js ''Failed to fetch'')),
      [Console Log, FetchPost open_action_no_url (js ''item1''), Console Error])"
  by (simp add: onAction_ChatKitPanel_def blocked_browser_def)

text \<open>
  Claim C6, amended. For a \<^verbatim>\<open>navigation.open\<close> action whose \<^verbatim>\<open>payload.url\<close> is absent (or
  otherwise falsy), the panel of \<^verbatim>\<open>unnamed/part_000\<close> does nothing but log to the console and
  returns \<^verbatim>\<open>undefined\<close>: no navigation, no backend request, no error. The panel of
  \<^verbatim>\<open>ChatKitPanel.tsx\<close> first relays the action to the backend, as it does for every action,
  and then performs no navigation; it returns what the relay gives, the failure of the
  request included.
\<close>

theorem navigation_open_no_url:
  assumes "type action = js ''navigation.open''"
    and "\<not> Boolean_js (payload_url action)"
  shows "onAction w action item_id =
           (Inr Undefined, [Console Log, Console Log, Console Log, Console Log])
       \<and> FetchPost action item_id \<in> set (snd (onAction_ChatKitPanel w action item_id))
       \<and> list_all (\<lambda>e. \<not> is_navigation e) (snd (onAction_ChatKitPanel w action item_id))
       \<and> fst (onAction_ChatKitPanel w action item_id) =
           relayed_result (post_widget_action w action item_id)"
  using assms
  by (auto simp: onAction_def navigation_open_def onAction_ChatKitPanel_def Let_def
      split: post_fetch.splits sum.splits)

theorem navigation_open_no_url_witness:
  "onAction ok_browser open_action_no_url (js ''item1'') =
     (Inr Undefined, [Console Log, Console Log, Console Log, Console Log])
   \<and> FetchPost open_action_no_url (js ''item1'')
       \<in> set (snd (onAction_ChatKitPanel ok_browser open_action_no_url (js ''item1'')))
   \<and> list_all (\<lambda>e. \<not> is_navigation e)
       (snd (onAction_ChatKitPanel ok_browser open_action_no_url (js ''item1'')))"
proof -
  have a: "type open_action_no_url = js ''navigation.open''"
    by (simp add: open_action_no_url_def)
  have b: "\<not> Boolean_js (payload_url open_action_no_url)"
    by (simp add: open_action_no_url_def payload_url_def property_def)
  show ?thesis
    using navigation_open_no_url [OF a b, of ok_browser "js ''item1''"] by blast
qed

end
